theory Spec2Isabelle
  imports Main
begin

section \<open>Data model (main.py, lines 22-105)\<close>

text \<open>
  The two tables of main.py. A row of \<open>users\<close> (class User, lines 28-38) and a
  row of \<open>items\<close> (class Item, lines 41-51). Python's int is unbounded, so ids are
  \<open>int\<close>. The column \<open>description\<close> is declared \<open>Mapped[str]\<close> (line 48), without
  Optional, so a stored row always carries a string there.
  The relationship attributes \<open>User.items\<close> and \<open>Item.owner\<close> are not columns: they
  are computed from \<open>owner_id\<close> (see \<open>User_items\<close> below).
\<close>

record User =
  User_id :: int
  User_email :: string
  User_hashed_password :: string
  User_is_active :: bool

record Item =
  Item_id :: int
  Item_title :: string
  Item_description :: string
  Item_owner_id :: int

text \<open>The request and response shapes (pydantic models, lines 62-105).\<close>

record ItemCreateRequest =
  ItemCreateRequest_title :: string
  ItemCreateRequest_description :: "string option"

record ItemResponse =
  ItemResponse_title :: string
  ItemResponse_description :: "string option"
  ItemResponse_id :: int
  ItemResponse_owner_id :: int

record UserCreateRequest =
  UserCreateRequest_email :: string
  UserCreateRequest_password :: string

record UserResponse =
  UserResponse_email :: string
  UserResponse_id :: int
  UserResponse_is_active :: bool
  UserResponse_items :: "ItemResponse list"

text \<open>
  The persisted state behind a Session: the rows of both tables, in the order the
  storage returns them for a SELECT without ORDER BY (insertion order).
\<close>

record DB =
  users :: "User list"
  items :: "Item list"

definition empty_db :: DB where
  "empty_db = \<lparr>users = [], items = []\<rparr>"

text \<open>
  Exceptions as values. \<open>HTTPException status detail\<close> is what the handlers raise
  (lines 194, 210). \<open>StorageError\<close> stands for any exception of the database
  driver that the handlers do not catch (a refused INSERT, a malformed LIMIT).
\<close>

datatype error = HTTPException int string | StorageError

section \<open>The storage operations used by the CRUD functions\<close>

text \<open>\<open>.scalars().first()\<close>: the first row of a result, or None.\<close>

definition first_row :: "'a list \<Rightarrow> 'a option" where
  "first_row rows = (case rows of [] \<Rightarrow> None | r # _ \<Rightarrow> Some r)"

text \<open>
  \<open>select(...).offset(skip).limit(limit)\<close> as the scan the storage performs: rows are
  skipped while the offset counter is positive, then emitted while the limit counter is.
\<close>

fun offset_limit :: "nat \<Rightarrow> nat \<Rightarrow> 'a list \<Rightarrow> 'a list" where
  "offset_limit skip limit [] = []"
| "offset_limit (Suc skip) limit (r # rows) = offset_limit skip limit rows"
| "offset_limit 0 0 (r # rows) = []"
| "offset_limit 0 (Suc limit) (r # rows) = r # offset_limit 0 limit rows"

text \<open>
  skip and limit are Python ints and may be negative; the storage (MySQL, line 162)
  refuses a negative OFFSET or LIMIT, which surfaces as an exception of the driver.
\<close>

definition select_offset_limit :: "int \<Rightarrow> int \<Rightarrow> 'a list \<Rightarrow> error + 'a list" where
  "select_offset_limit skip limit rows =
     (if skip < 0 \<or> limit < 0 then Inl StorageError
      else Inr (offset_limit (nat skip) (nat limit) rows))"

text \<open>
  The generated primary key (\<open>primary_key=True\<close> on an integer column, lines 33 and
  46): one more than the largest id in the table, 1 for the empty table.
\<close>

definition next_id :: "int list \<Rightarrow> int" where
  "next_id ids = fold max ids 0 + 1"

text \<open>
  \<open>db.add(row); db.commit(); db.refresh(row)\<close> for a User (lines 138-140). The INSERT
  is refused when the row violates a constraint that the schema declares: the width
  \<open>String(100)\<close> of email and hashed_password (lines 34-35), or \<open>unique=True\<close> on
  email (line 34). A refused INSERT leaves the table as it was. Otherwise the row is
  appended with its generated id and returned.
\<close>

definition add_commit_refresh_User ::
  "DB \<Rightarrow> string \<Rightarrow> string \<Rightarrow> bool \<Rightarrow> (error + User) \<times> DB" where
  "add_commit_refresh_User db email hashed_password is_active =
     (if 100 < length email \<or> 100 < length hashed_password
         \<or> email \<in> set (map User_email (users db))
      then (Inl StorageError, db)
      else
        let db_user = \<lparr>User_id = next_id (map User_id (users db)),
                       User_email = email,
                       User_hashed_password = hashed_password,
                       User_is_active = is_active\<rparr>
        in (Inr db_user, db\<lparr>users := users db @ [db_user]\<rparr>))"

text \<open>
  The same for an Item (lines 152-154). The schema declares \<open>String(30)\<close> for title
  and description (lines 47-48), description as \<open>Mapped[str]\<close>, hence NOT NULL
  (line 48), and \<open>ForeignKey("users.id")\<close> on owner_id (line 49).
\<close>

definition add_commit_refresh_Item ::
  "DB \<Rightarrow> string \<Rightarrow> string option \<Rightarrow> int \<Rightarrow> (error + Item) \<times> DB" where
  "add_commit_refresh_Item db title description owner_id =
     (case description of
        None \<Rightarrow> (Inl StorageError, db)
      | Some d \<Rightarrow>
          if 30 < length title \<or> 30 < length d
             \<or> owner_id \<notin> set (map User_id (users db))
          then (Inl StorageError, db)
          else
            let db_item = \<lparr>Item_id = next_id (map Item_id (items db)),
                           Item_title = title,
                           Item_description = d,
                           Item_owner_id = owner_id\<rparr>
            in (Inr db_item, db\<lparr>items := items db @ [db_item]\<rparr>))"

section \<open>CRUD functions (main.py, lines 117-155)\<close>

text \<open>
  Every function takes the state and returns its result together with the state
  after the call, so that what a call persists is part of its value.
\<close>

definition get_db_user :: "DB \<Rightarrow> int \<Rightarrow> User option \<times> DB" where
  "get_db_user db user_id =
     (first_row (filter (\<lambda>u. User_id u = user_id) (users db)), db)"

definition get_db_user_by_email :: "DB \<Rightarrow> string \<Rightarrow> User option \<times> DB" where
  "get_db_user_by_email db email =
     (first_row (filter (\<lambda>u. User_email u = email) (users db)), db)"

definition get_db_users :: "DB \<Rightarrow> int \<Rightarrow> int \<Rightarrow> (error + User list) \<times> DB" where
  "get_db_users db skip limit = (select_offset_limit skip limit (users db), db)"

definition create_db_user :: "DB \<Rightarrow> UserCreateRequest \<Rightarrow> (error + User) \<times> DB" where
  "create_db_user db user =
     (let fake_hashed_password = UserCreateRequest_password user @ ''notreallyhashed''
      in add_commit_refresh_User db (UserCreateRequest_email user) fake_hashed_password True)"

definition get_db_items :: "DB \<Rightarrow> int \<Rightarrow> int \<Rightarrow> (error + Item list) \<times> DB" where
  "get_db_items db skip limit = (select_offset_limit skip limit (items db), db)"

definition create_db_user_item ::
  "DB \<Rightarrow> ItemCreateRequest \<Rightarrow> int \<Rightarrow> (error + Item) \<times> DB" where
  "create_db_user_item db item user_id =
     add_commit_refresh_Item db (ItemCreateRequest_title item)
       (ItemCreateRequest_description item) user_id"

section \<open>Response projection (\<open>response_model\<close> with \<open>orm_mode\<close>)\<close>

definition ItemResponse_from_orm :: "Item \<Rightarrow> ItemResponse" where
  "ItemResponse_from_orm i =
     \<lparr>ItemResponse_title = Item_title i,
      ItemResponse_description = Some (Item_description i),
      ItemResponse_id = Item_id i,
      ItemResponse_owner_id = Item_owner_id i\<rparr>"

text \<open>The relationship \<open>User.items\<close> (line 38): the items whose owner_id is the user's id.\<close>

definition User_items :: "DB \<Rightarrow> User \<Rightarrow> Item list" where
  "User_items db u = filter (\<lambda>i. Item_owner_id i = User_id u) (items db)"

definition UserResponse_from_orm :: "DB \<Rightarrow> User \<Rightarrow> UserResponse" where
  "UserResponse_from_orm db u =
     \<lparr>UserResponse_email = User_email u,
      UserResponse_id = User_id u,
      UserResponse_is_active = User_is_active u,
      UserResponse_items = map ItemResponse_from_orm (User_items db u)\<rparr>"

section \<open>Request handlers (main.py, lines 189-226)\<close>

text \<open>A query parameter with a default: absent in the request, it takes the default.\<close>

definition query_param :: "int option \<Rightarrow> int \<Rightarrow> int" where
  "query_param given dflt = (case given of None \<Rightarrow> dflt | Some v \<Rightarrow> v)"

definition create_user :: "UserCreateRequest \<Rightarrow> DB \<Rightarrow> (error + UserResponse) \<times> DB" where
  "create_user user db =
     (case get_db_user_by_email db (UserCreateRequest_email user) of
        (Some db_user, db1) \<Rightarrow>
          (Inl (HTTPException 400 ''Email already registered''), db1)
      | (None, db1) \<Rightarrow>
          (case create_db_user db1 user of
             (Inl e, db2) \<Rightarrow> (Inl e, db2)
           | (Inr u, db2) \<Rightarrow> (Inr (UserResponse_from_orm db2 u), db2)))"

definition read_users ::
  "int option \<Rightarrow> int option \<Rightarrow> DB \<Rightarrow> (error + UserResponse list) \<times> DB" where
  "read_users skip limit db =
     (case get_db_users db (query_param skip 0) (query_param limit 100) of
        (Inl e, db1) \<Rightarrow> (Inl e, db1)
      | (Inr us, db1) \<Rightarrow> (Inr (map (UserResponse_from_orm db1) us), db1))"

definition read_user :: "int \<Rightarrow> DB \<Rightarrow> (error + UserResponse) \<times> DB" where
  "read_user user_id db =
     (case get_db_user db user_id of
        (None, db1) \<Rightarrow> (Inl (HTTPException 404 ''User not found''), db1)
      | (Some db_user, db1) \<Rightarrow> (Inr (UserResponse_from_orm db1 db_user), db1))"

definition create_item_for_user ::
  "int \<Rightarrow> ItemCreateRequest \<Rightarrow> DB \<Rightarrow> (error + ItemResponse) \<times> DB" where
  "create_item_for_user user_id item db =
     (case create_db_user_item db item user_id of
        (Inl e, db1) \<Rightarrow> (Inl e, db1)
      | (Inr i, db1) \<Rightarrow> (Inr (ItemResponse_from_orm i), db1))"

definition read_items ::
  "int option \<Rightarrow> int option \<Rightarrow> DB \<Rightarrow> (error + ItemResponse list) \<times> DB" where
  "read_items skip limit db =
     (case get_db_items db (query_param skip 0) (query_param limit 100) of
        (Inl e, db1) \<Rightarrow> (Inl e, db1)
      | (Inr is, db1) \<Rightarrow> (Inr (map ItemResponse_from_orm is), db1))"

section \<open>Sequences of requests\<close>

text \<open>
  One request to the service, and the state the service is in after a sequence of
  them, each handled to completion before the next, starting from empty tables.
\<close>

datatype request =
  CreateUser UserCreateRequest
| ReadUsers "int option" "int option"
| ReadUser int
| CreateItemForUser int ItemCreateRequest
| ReadItems "int option" "int option"

fun handle :: "DB \<Rightarrow> request \<Rightarrow> DB" where
  "handle db (CreateUser user) = snd (create_user user db)"
| "handle db (ReadUsers skip limit) = snd (read_users skip limit db)"
| "handle db (ReadUser user_id) = snd (read_user user_id db)"
| "handle db (CreateItemForUser user_id item) = snd (create_item_for_user user_id item db)"
| "handle db (ReadItems skip limit) = snd (read_items skip limit db)"

definition run :: "request list \<Rightarrow> DB" where
  "run reqs = foldl handle empty_db reqs"

text \<open>
  What the declared constraints keep true of the tables: emails are pairwise different
  (\<open>unique=True\<close>), ids are pairwise different (primary key), and every item's
  owner_id is the id of a stored user (foreign key).
\<close>

definition db_invariant :: "DB \<Rightarrow> bool" where
  "db_invariant db =
     (distinct (map User_email (users db))
      \<and> distinct (map User_id (users db))
      \<and> list_all (\<lambda>i. Item_owner_id i \<in> set (map User_id (users db))) (items db))"

section \<open>Auxiliary facts\<close>

subsection \<open>Queries\<close>

lemma first_row_filter_None:
  "(first_row (filter P xs) = None) = (\<forall>x \<in> set xs. \<not> P x)"
  by (induction xs) (simp_all add: first_row_def)

lemma first_row_filter_Some:
  "first_row (filter P xs) = Some x \<Longrightarrow> x \<in> set xs \<and> P x"
  by (induction xs) (auto simp: first_row_def split: if_splits)

lemma first_row_filter_map:
  assumes "\<And>x. P (g x) = P x"
  shows "first_row (filter P (map g xs)) = map_option g (first_row (filter P xs))"
  using assms by (induction xs) (simp_all add: first_row_def)

lemma offset_limit_take_drop:
  "offset_limit skip limit rows = take limit (drop skip rows)"
  by (induction skip limit rows rule: offset_limit.induct) simp_all

lemma offset_limit_window:
  assumes "skip \<le> length rows" and "length rows < skip + limit"
  shows "offset_limit skip limit (rows @ [r]) = drop skip rows @ [r]"
proof -
  have "take limit (drop skip rows @ [r]) = drop skip rows @ [r]"
    using assms by simp
  then show ?thesis
    using assms by (simp add: offset_limit_take_drop)
qed

subsection \<open>Generated ids\<close>

lemma fold_max_ge_start: "(a::int) \<le> fold max ids a"
proof (induction ids arbitrary: a)
  case Nil
  show ?case by simp
next
  case (Cons i ids)
  have "a \<le> max i a" by simp
  also have "\<dots> \<le> fold max ids (max i a)" by (rule Cons.IH)
  finally show ?case by simp
qed

lemma fold_max_ge_elem: "i \<in> set ids \<Longrightarrow> (i::int) \<le> fold max ids a"
proof (induction ids arbitrary: a)
  case Nil
  then show ?case by simp
next
  case (Cons j ids)
  show ?case
  proof (cases "i = j")
    case True
    have "i \<le> max j a" using True by simp
    also have "\<dots> \<le> fold max ids (max j a)" by (rule fold_max_ge_start)
    finally show ?thesis by simp
  next
    case False
    with Cons.prems have "i \<in> set ids" by simp
    then show ?thesis using Cons.IH by simp
  qed
qed

lemma next_id_fresh: "next_id ids \<notin> set ids"
proof
  assume "next_id ids \<in> set ids"
  then have "next_id ids \<le> fold max ids 0" by (rule fold_max_ge_elem)
  then show False by (simp add: next_id_def)
qed

lemma next_id_positive: "0 < next_id ids"
  using fold_max_ge_start [of 0 ids] by (simp add: next_id_def)

subsection \<open>The handlers by cases\<close>

lemma create_user_cases:
  "create_user user db =
     (if UserCreateRequest_email user \<in> set (map User_email (users db))
      then (Inl (HTTPException 400 ''Email already registered''), db)
      else if 100 < length (UserCreateRequest_email user)
              \<or> 85 < length (UserCreateRequest_password user)
      then (Inl StorageError, db)
      else
        let u = \<lparr>User_id = next_id (map User_id (users db)),
                 User_email = UserCreateRequest_email user,
                 User_hashed_password = UserCreateRequest_password user @ ''notreallyhashed'',
                 User_is_active = True\<rparr>;
            db2 = db\<lparr>users := users db @ [u]\<rparr>
        in (Inr (UserResponse_from_orm db2 u), db2))"
proof (cases "first_row (filter (\<lambda>u. User_email u = UserCreateRequest_email user) (users db))")
  case None
  then have "UserCreateRequest_email user \<notin> set (map User_email (users db))"
    by (auto simp: first_row_filter_None)
  with None show ?thesis
    by (auto simp: create_user_def get_db_user_by_email_def create_db_user_def
        add_commit_refresh_User_def Let_def)
next
  case (Some u)
  then have "u \<in> set (users db) \<and> User_email u = UserCreateRequest_email user"
    by (rule first_row_filter_Some)
  then have "UserCreateRequest_email user \<in> set (map User_email (users db))"
    by force
  with Some show ?thesis
    by (simp add: create_user_def get_db_user_by_email_def)
qed

lemma create_item_for_user_cases:
  "create_item_for_user user_id item db =
     (case ItemCreateRequest_description item of
        None \<Rightarrow> (Inl StorageError, db)
      | Some d \<Rightarrow>
          if 30 < length (ItemCreateRequest_title item) \<or> 30 < length d
             \<or> user_id \<notin> set (map User_id (users db))
          then (Inl StorageError, db)
          else
            let i = \<lparr>Item_id = next_id (map Item_id (items db)),
                     Item_title = ItemCreateRequest_title item,
                     Item_description = d,
                     Item_owner_id = user_id\<rparr>
            in (Inr (ItemResponse_from_orm i), db\<lparr>items := items db @ [i]\<rparr>))"
  by (simp add: create_item_for_user_def create_db_user_item_def
      add_commit_refresh_Item_def Let_def split: option.splits)

lemma read_users_state: "snd (read_users skip limit db) = db"
  by (simp add: read_users_def get_db_users_def split: sum.splits)

lemma read_user_state: "snd (read_user user_id db) = db"
  by (simp add: read_user_def get_db_user_def split: option.splits)

lemma read_items_state: "snd (read_items skip limit db) = db"
  by (simp add: read_items_def get_db_items_def split: sum.splits)

subsection \<open>The tables after any sequence of requests\<close>

lemma create_user_invariant:
  "db_invariant db \<Longrightarrow> db_invariant (snd (create_user user db))"
  using next_id_fresh [of "map User_id (users db)"]
  by (auto simp: create_user_cases db_invariant_def Let_def list_all_iff)

lemma create_item_for_user_invariant:
  "db_invariant db \<Longrightarrow> db_invariant (snd (create_item_for_user user_id item db))"
  by (auto simp: create_item_for_user_cases db_invariant_def Let_def list_all_iff
      split: option.splits)

lemma handle_invariant: "db_invariant db \<Longrightarrow> db_invariant (handle db req)"
  by (cases req)
    (simp_all add: create_user_invariant create_item_for_user_invariant
      read_users_state read_user_state read_items_state)

lemma foldl_handle_invariant:
  "db_invariant db \<Longrightarrow> db_invariant (foldl handle db reqs)"
  by (induction reqs arbitrary: db) (simp_all add: handle_invariant)

lemma run_invariant: "db_invariant (run reqs)"
  unfolding run_def
  by (rule foldl_handle_invariant) (simp add: db_invariant_def empty_db_def)

subsection \<open>The stored secret and the responses\<close>

lemma UserResponse_from_orm_secret:
  "UserResponse_from_orm (db\<lparr>users := us\<rparr>) (u\<lparr>User_hashed_password := secret\<rparr>)
     = UserResponse_from_orm db u"
  by (simp add: UserResponse_from_orm_def User_items_def)

lemma read_user_secret:
  "fst (read_user user_id
          (db\<lparr>users := map (\<lambda>u. u\<lparr>User_hashed_password := f u\<rparr>) (users db)\<rparr>))
     = fst (read_user user_id db)"
proof -
  have "first_row (filter (\<lambda>u. User_id u = user_id)
            (map (\<lambda>u. u\<lparr>User_hashed_password := f u\<rparr>) (users db)))
        = map_option (\<lambda>u. u\<lparr>User_hashed_password := f u\<rparr>)
            (first_row (filter (\<lambda>u. User_id u = user_id) (users db)))"
    by (rule first_row_filter_map) simp
  then show ?thesis
    by (cases "first_row (filter (\<lambda>u. User_id u = user_id) (users db))")
      (simp_all add: read_user_def get_db_user_def UserResponse_from_orm_secret)
qed

lemma read_users_secret:
  "fst (read_users skip limit
          (db\<lparr>users := map (\<lambda>u. u\<lparr>User_hashed_password := f u\<rparr>) (users db)\<rparr>))
     = fst (read_users skip limit db)"
  by (simp add: read_users_def get_db_users_def select_offset_limit_def
      offset_limit_take_drop take_map drop_map UserResponse_from_orm_secret)

section \<open>Properties\<close>

subsection \<open>Account creation\<close>

text \<open>
  C1. For every state and every account-creation request, \<open>create_user\<close> fails with
  the 400 error "Email already registered" exactly when some stored account has the
  request's email; and in that case the state after the call is the state before it
  (no row is added).
\<close>

theorem create_user_duplicate_email:
  "(fst (create_user user db) = Inl (HTTPException 400 ''Email already registered''))
     = (\<exists>u \<in> set (users db). User_email u = UserCreateRequest_email user)
   \<and> ((\<exists>u \<in> set (users db). User_email u = UserCreateRequest_email user)
        \<longrightarrow> snd (create_user user db) = db)"
proof -
  have mem: "(\<exists>u \<in> set (users db). User_email u = UserCreateRequest_email user)
      = (UserCreateRequest_email user \<in> set (map User_email (users db)))"
    by force
  show ?thesis
    unfolding mem by (simp add: create_user_cases Let_def)
qed

text \<open>An instance: a second request with the email of the stored account, another password.\<close>

theorem create_user_duplicate_email_witness:
  "(fst (create_user \<lparr>UserCreateRequest_email = ''a@example.com'',
                      UserCreateRequest_password = ''pw2''\<rparr>
         \<lparr>users = [\<lparr>User_id = 1, User_email = ''a@example.com'',
                    User_hashed_password = ''pw1notreallyhashed'',
                    User_is_active = True\<rparr>], items = []\<rparr>)
     = Inl (HTTPException 400 ''Email already registered''))
   \<and> snd (create_user \<lparr>UserCreateRequest_email = ''a@example.com'',
                       UserCreateRequest_password = ''pw2''\<rparr>
         \<lparr>users = [\<lparr>User_id = 1, User_email = ''a@example.com'',
                    User_hashed_password = ''pw1notreallyhashed'',
                    User_is_active = True\<rparr>], items = []\<rparr>)
     = \<lparr>users = [\<lparr>User_id = 1, User_email = ''a@example.com'',
                    User_hashed_password = ''pw1notreallyhashed'',
                    User_is_active = True\<rparr>], items = []\<rparr>"
  using create_user_duplicate_email
    [of "\<lparr>UserCreateRequest_email = ''a@example.com'', UserCreateRequest_password = ''pw2''\<rparr>"
        "\<lparr>users = [\<lparr>User_id = 1, User_email = ''a@example.com'',
                    User_hashed_password = ''pw1notreallyhashed'',
                    User_is_active = True\<rparr>], items = []\<rparr>"]
  by simp

text \<open>
  C2. In the state after any sequence of requests to the five handlers, started from
  empty tables, no two stored accounts have the same email.
\<close>

theorem emails_unique_in_reachable_states:
  "distinct (map User_email (users (run reqs)))"
  using run_invariant [of reqs] by (simp add: db_invariant_def)

text \<open>
  C3, as the code has it. In the state after any sequence of requests, a request whose
  email is not stored, whose email has at most 100 characters and whose password has at
  most 85 (so that the password followed by the 15 characters of the suffix fits the
  column of width 100) is answered with a response made of the request's email, a
  generated id that no stored account has, is_active = True and no items. No response
  shows the stored secret: the projection of an account does not depend on it, and
  neither do the answers of \<open>read_user\<close> and \<open>read_users\<close>, whatever the stored
  secrets are replaced with.
\<close>

theorem create_user_fresh_email:
  assumes fresh: "UserCreateRequest_email user \<notin> set (map User_email (users (run reqs)))"
    and email_width: "length (UserCreateRequest_email user) \<le> 100"
    and password_width: "length (UserCreateRequest_password user) \<le> 85"
  shows "fst (create_user user (run reqs)) =
           Inr \<lparr>UserResponse_email = UserCreateRequest_email user,
                UserResponse_id = next_id (map User_id (users (run reqs))),
                UserResponse_is_active = True,
                UserResponse_items = []\<rparr>
         \<and> next_id (map User_id (users (run reqs))) \<notin> set (map User_id (users (run reqs)))
         \<and> UserResponse_from_orm db (u\<lparr>User_hashed_password := secret\<rparr>)
             = UserResponse_from_orm db u
         \<and> fst (read_user user_id
                  (db\<lparr>users := map (\<lambda>u. u\<lparr>User_hashed_password := f u\<rparr>) (users db)\<rparr>))
             = fst (read_user user_id db)
         \<and> fst (read_users skip limit
                  (db\<lparr>users := map (\<lambda>u. u\<lparr>User_hashed_password := f u\<rparr>) (users db)\<rparr>))
             = fst (read_users skip limit db)"
proof -
  let ?db = "run reqs"
  let ?n = "next_id (map User_id (users ?db))"
  have new: "?n \<notin> set (map User_id (users ?db))"
    by (rule next_id_fresh)
  have "list_all (\<lambda>i. Item_owner_id i \<in> set (map User_id (users ?db))) (items ?db)"
    using run_invariant [of reqs] by (simp add: db_invariant_def)
  then have "\<forall>i \<in> set (items ?db). Item_owner_id i \<noteq> ?n"
    using new unfolding list_all_iff by metis
  then have none: "filter (\<lambda>i. Item_owner_id i = ?n) (items ?db) = []"
    by (simp add: filter_empty_conv)
  have "fst (create_user user ?db) =
           Inr \<lparr>UserResponse_email = UserCreateRequest_email user,
                UserResponse_id = ?n,
                UserResponse_is_active = True,
                UserResponse_items = []\<rparr>"
    using fresh email_width password_width none
    by (simp add: create_user_cases Let_def UserResponse_from_orm_def User_items_def)
  moreover have "UserResponse_from_orm db (u\<lparr>User_hashed_password := secret\<rparr>)
             = UserResponse_from_orm db u"
    by (simp add: UserResponse_from_orm_def User_items_def)
  ultimately show ?thesis
    using new by (simp add: read_user_secret read_users_secret)
qed

text \<open>
  An instance, in the state after one account and one item of that account were
  created: the second account gets the id 2 and no items.
\<close>

theorem create_user_fresh_email_witness:
  "''b@example.com'' \<notin> set (map User_email (users (run
       [CreateUser \<lparr>UserCreateRequest_email = ''a@example.com'',
                    UserCreateRequest_password = ''pw''\<rparr>,
        CreateItemForUser 1 \<lparr>ItemCreateRequest_title = ''book'',
                             ItemCreateRequest_description = Some ''a book''\<rparr>])))
   \<and> fst (create_user \<lparr>UserCreateRequest_email = ''b@example.com'',
                       UserCreateRequest_password = ''secret''\<rparr>
        (run [CreateUser \<lparr>UserCreateRequest_email = ''a@example.com'',
                          UserCreateRequest_password = ''pw''\<rparr>,
              CreateItemForUser 1 \<lparr>ItemCreateRequest_title = ''book'',
                                   ItemCreateRequest_description = Some ''a book''\<rparr>]))
     = Inr \<lparr>UserResponse_email = ''b@example.com'', UserResponse_id = 2,
            UserResponse_is_active = True, UserResponse_items = []\<rparr>"
proof -
  let ?reqs = "[CreateUser \<lparr>UserCreateRequest_email = ''a@example.com'',
                            UserCreateRequest_password = ''pw''\<rparr>,
                CreateItemForUser 1 \<lparr>ItemCreateRequest_title = ''book'',
                                     ItemCreateRequest_description = Some ''a book''\<rparr>]"
  let ?user = "\<lparr>UserCreateRequest_email = ''b@example.com'',
                UserCreateRequest_password = ''secret''\<rparr>"
  have state: "users (run ?reqs) =
      [\<lparr>User_id = 1, User_email = ''a@example.com'',
        User_hashed_password = ''pwnotreallyhashed'', User_is_active = True\<rparr>]"
    by (simp add: run_def empty_db_def create_user_cases create_item_for_user_cases
        next_id_def Let_def)
  have fresh: "UserCreateRequest_email ?user \<notin> set (map User_email (users (run ?reqs)))"
    unfolding state by simp
  have "fst (create_user ?user (run ?reqs)) =
           Inr \<lparr>UserResponse_email = UserCreateRequest_email ?user,
                UserResponse_id = next_id (map User_id (users (run ?reqs))),
                UserResponse_is_active = True,
                UserResponse_items = []\<rparr>"
    using create_user_fresh_email [OF fresh] by simp
  then show ?thesis
    using fresh unfolding state by (simp add: next_id_def)
qed

text \<open>
  C3 as it is stated, for every request with an email that is not stored, fails: on
  empty tables a request with an email of 101 characters is refused by the storage
  (the column is \<open>String(100)\<close>, line 34) and nothing is stored.
\<close>

theorem create_user_long_email_counterexample:
  "UserCreateRequest_email
      \<lparr>UserCreateRequest_email = replicate 101 CHR ''a'', UserCreateRequest_password = ''pw''\<rparr>
     \<notin> set (map User_email (users empty_db))
   \<and> create_user
       \<lparr>UserCreateRequest_email = replicate 101 CHR ''a'', UserCreateRequest_password = ''pw''\<rparr>
       empty_db
     = (Inl StorageError, empty_db)"
  by (simp add: create_user_cases empty_db_def)

text \<open>
  C9. Whenever \<open>create_db_user\<close> stores an account, the stored secret is the request's
  password followed by the constant \<open>notreallyhashed\<close>, the account is active, and the
  account is the one row added to the table. It does store one when the email is not
  stored yet and the email and the secret fit their columns.
\<close>

theorem create_db_user_secret:
  "(create_db_user db user = (Inr u, db') \<longrightarrow>
      User_hashed_password u = UserCreateRequest_password user @ ''notreallyhashed''
      \<and> User_is_active u = True
      \<and> db' = db\<lparr>users := users db @ [u]\<rparr>)
   \<and> (UserCreateRequest_email user \<notin> set (map User_email (users db))
       \<and> length (UserCreateRequest_email user) \<le> 100
       \<and> length (UserCreateRequest_password user) \<le> 85 \<longrightarrow>
      (\<exists>u db'. create_db_user db user = (Inr u, db')))"
  by (auto simp: create_db_user_def add_commit_refresh_User_def Let_def split: if_splits)

theorem create_db_user_secret_witness:
  "create_db_user empty_db
      \<lparr>UserCreateRequest_email = ''a@example.com'', UserCreateRequest_password = ''pw''\<rparr>
     = (Inr \<lparr>User_id = 1, User_email = ''a@example.com'',
             User_hashed_password = ''pwnotreallyhashed'', User_is_active = True\<rparr>,
        \<lparr>users = [\<lparr>User_id = 1, User_email = ''a@example.com'',
             User_hashed_password = ''pwnotreallyhashed'', User_is_active = True\<rparr>],
         items = []\<rparr>)
   \<and> User_hashed_password \<lparr>User_id = 1, User_email = ''a@example.com'',
             User_hashed_password = ''pwnotreallyhashed'', User_is_active = True\<rparr>
     = ''pw'' @ ''notreallyhashed''"
proof -
  let ?user = "\<lparr>UserCreateRequest_email = ''a@example.com'',
                UserCreateRequest_password = ''pw''\<rparr>"
  let ?u = "\<lparr>User_id = 1, User_email = ''a@example.com'',
             User_hashed_password = ''pwnotreallyhashed'', User_is_active = True\<rparr>"
  let ?db' = "\<lparr>users = [?u], items = []\<rparr>"
  have made: "create_db_user empty_db ?user = (Inr ?u, ?db')"
    by (simp add: create_db_user_def add_commit_refresh_User_def next_id_def empty_db_def
        Let_def)
  show ?thesis
    using made create_db_user_secret [of empty_db ?user ?u ?db'] by simp
qed

subsection \<open>Record creation\<close>

text \<open>
  C4, as the code has it. For a request with a title of at most 30 characters and a
  description that is present and has at most 30 characters: \<open>create_item_for_user\<close>
  makes no check of its own on the owner (it never fails with an HTTP error); when
  owner_id is the id of a stored account, it adds one row with that owner_id and a
  generated id that no stored item has, and answers with that row; when owner_id is the
  id of no stored account, the storage refuses the row (\<open>ForeignKey("users.id")\<close>, line
  49) and the tables are as before.
\<close>

theorem create_item_for_user_owner:
  assumes description: "ItemCreateRequest_description item = Some d"
    and title_width: "length (ItemCreateRequest_title item) \<le> 30"
    and description_width: "length d \<le> 30"
  shows "(\<forall>status detail.
            fst (create_item_for_user user_id item db) \<noteq> Inl (HTTPException status detail))
         \<and> (user_id \<in> set (map User_id (users db)) \<longrightarrow>
              create_item_for_user user_id item db =
                (Inr \<lparr>ItemResponse_title = ItemCreateRequest_title item,
                      ItemResponse_description = Some d,
                      ItemResponse_id = next_id (map Item_id (items db)),
                      ItemResponse_owner_id = user_id\<rparr>,
                 db\<lparr>items := items db @
                    [\<lparr>Item_id = next_id (map Item_id (items db)),
                      Item_title = ItemCreateRequest_title item,
                      Item_description = d,
                      Item_owner_id = user_id\<rparr>]\<rparr>)
              \<and> next_id (map Item_id (items db)) \<notin> set (map Item_id (items db)))
         \<and> (user_id \<notin> set (map User_id (users db)) \<longrightarrow>
              create_item_for_user user_id item db = (Inl StorageError, db))"
  using assms next_id_fresh [of "map Item_id (items db)"]
  by (simp add: create_item_for_user_cases Let_def ItemResponse_from_orm_def)

text \<open>An instance with one stored account: owner 1 is stored, owner 2 is not.\<close>

theorem create_item_for_user_owner_witness:
  "create_item_for_user 1
      \<lparr>ItemCreateRequest_title = ''book'', ItemCreateRequest_description = Some ''a book''\<rparr>
      \<lparr>users = [\<lparr>User_id = 1, User_email = ''a@example.com'',
                 User_hashed_password = ''pwnotreallyhashed'', User_is_active = True\<rparr>],
       items = []\<rparr>
     = (Inr \<lparr>ItemResponse_title = ''book'', ItemResponse_description = Some ''a book'',
            ItemResponse_id = 1, ItemResponse_owner_id = 1\<rparr>,
        \<lparr>users = [\<lparr>User_id = 1, User_email = ''a@example.com'',
                 User_hashed_password = ''pwnotreallyhashed'', User_is_active = True\<rparr>],
         items = [\<lparr>Item_id = 1, Item_title = ''book'', Item_description = ''a book'',
                  Item_owner_id = 1\<rparr>]\<rparr>)
   \<and> create_item_for_user 2
      \<lparr>ItemCreateRequest_title = ''book'', ItemCreateRequest_description = Some ''a book''\<rparr>
      \<lparr>users = [\<lparr>User_id = 1, User_email = ''a@example.com'',
                 User_hashed_password = ''pwnotreallyhashed'', User_is_active = True\<rparr>],
       items = []\<rparr>
     = (Inl StorageError,
        \<lparr>users = [\<lparr>User_id = 1, User_email = ''a@example.com'',
                 User_hashed_password = ''pwnotreallyhashed'', User_is_active = True\<rparr>],
         items = []\<rparr>)"
proof -
  let ?item = "\<lparr>ItemCreateRequest_title = ''book'',
                ItemCreateRequest_description = Some ''a book''\<rparr>"
  let ?db = "\<lparr>users = [\<lparr>User_id = 1, User_email = ''a@example.com'',
                 User_hashed_password = ''pwnotreallyhashed'', User_is_active = True\<rparr>],
              items = []\<rparr>"
  have d: "ItemCreateRequest_description ?item = Some ''a book''" by simp
  have t: "length (ItemCreateRequest_title ?item) \<le> 30" by simp
  have w: "length ''a book'' \<le> 30" by simp
  show ?thesis
    using create_item_for_user_owner [OF d t w, of 1 ?db]
      create_item_for_user_owner [OF d t w, of 2 ?db]
    by (simp add: next_id_def)
qed

text \<open>
  C4 as it is stated, a row for every owner_id, fails: on empty tables no account has
  the id 7, and the request for owner 7 ends in the storage's error with nothing stored.
\<close>

theorem create_item_for_user_absent_owner_counterexample:
  "7 \<notin> set (map User_id (users empty_db))
   \<and> create_item_for_user 7
        \<lparr>ItemCreateRequest_title = ''book'', ItemCreateRequest_description = Some ''a book''\<rparr>
        empty_db
      = (Inl StorageError, empty_db)"
  by (simp add: create_item_for_user_cases empty_db_def)

text \<open>
  C5, as the code has it. For a stored owner and a request with a title of at most 30
  characters and a present description of at most 30 characters, the record is created,
  and a listing whose window covers the position of the new row (skip is at most the
  number n of records stored before, and n is below skip + limit; with the defaults
  skip = 0 and limit = 100 this is n < 100) contains the response of the creation, which
  has the owner_id, the title and the description of the request.
\<close>

theorem create_item_then_read_items:
  assumes owner: "user_id \<in> set (map User_id (users db))"
    and description: "ItemCreateRequest_description item = Some d"
    and title_width: "length (ItemCreateRequest_title item) \<le> 30"
    and description_width: "length d \<le> 30"
    and skip_low: "0 \<le> query_param skip 0"
    and skip_high: "query_param skip 0 \<le> int (length (items db))"
    and window: "int (length (items db)) < query_param skip 0 + query_param limit 100"
  shows "\<exists>resp db1 listing.
           create_item_for_user user_id item db = (Inr resp, db1)
           \<and> fst (read_items skip limit db1) = Inr listing
           \<and> resp \<in> set listing
           \<and> ItemResponse_owner_id resp = user_id
           \<and> ItemResponse_title resp = ItemCreateRequest_title item
           \<and> ItemResponse_description resp = ItemCreateRequest_description item"
proof -
  let ?i = "\<lparr>Item_id = next_id (map Item_id (items db)),
             Item_title = ItemCreateRequest_title item,
             Item_description = d,
             Item_owner_id = user_id\<rparr>"
  let ?db1 = "db\<lparr>items := items db @ [?i]\<rparr>"
  let ?s = "query_param skip 0"
  let ?l = "query_param limit 100"
  have created: "create_item_for_user user_id item db = (Inr (ItemResponse_from_orm ?i), ?db1)"
    using owner description title_width description_width
    by (simp add: create_item_for_user_cases Let_def)
  have limit_low: "0 \<le> ?l" using skip_high window by linarith
  have "nat ?s \<le> length (items db)" using skip_low skip_high by linarith
  moreover have "length (items db) < nat ?s + nat ?l"
    using skip_low limit_low window by linarith
  ultimately have scan: "offset_limit (nat ?s) (nat ?l) (items db @ [?i])
      = drop (nat ?s) (items db) @ [?i]"
    by (rule offset_limit_window)
  have listed: "fst (read_items skip limit ?db1)
      = Inr (map ItemResponse_from_orm (drop (nat ?s) (items db) @ [?i]))"
    using skip_low limit_low scan
    by (simp add: read_items_def get_db_items_def select_offset_limit_def)
  have member: "ItemResponse_from_orm ?i
      \<in> set (map ItemResponse_from_orm (drop (nat ?s) (items db) @ [?i]))"
    by simp
  have fields: "ItemResponse_owner_id (ItemResponse_from_orm ?i) = user_id
      \<and> ItemResponse_title (ItemResponse_from_orm ?i) = ItemCreateRequest_title item
      \<and> ItemResponse_description (ItemResponse_from_orm ?i) = ItemCreateRequest_description item"
    using description by (simp add: ItemResponse_from_orm_def)
  from created listed member fields show ?thesis by blast
qed

text \<open>An instance: the first record of a stored account, listed with the defaults.\<close>

theorem create_item_then_read_items_witness:
  "create_item_for_user 1
      \<lparr>ItemCreateRequest_title = ''book'', ItemCreateRequest_description = Some ''a book''\<rparr>
      \<lparr>users = [\<lparr>User_id = 1, User_email = ''a@example.com'',
                 User_hashed_password = ''pwnotreallyhashed'', User_is_active = True\<rparr>],
       items = []\<rparr>
     = (Inr \<lparr>ItemResponse_title = ''book'', ItemResponse_description = Some ''a book'',
            ItemResponse_id = 1, ItemResponse_owner_id = 1\<rparr>,
        \<lparr>users = [\<lparr>User_id = 1, User_email = ''a@example.com'',
                 User_hashed_password = ''pwnotreallyhashed'', User_is_active = True\<rparr>],
         items = [\<lparr>Item_id = 1, Item_title = ''book'', Item_description = ''a book'',
                  Item_owner_id = 1\<rparr>]\<rparr>)
   \<and> fst (read_items None None
        \<lparr>users = [\<lparr>User_id = 1, User_email = ''a@example.com'',
                 User_hashed_password = ''pwnotreallyhashed'', User_is_active = True\<rparr>],
         items = [\<lparr>Item_id = 1, Item_title = ''book'', Item_description = ''a book'',
                  Item_owner_id = 1\<rparr>]\<rparr>)
     = Inr [\<lparr>ItemResponse_title = ''book'', ItemResponse_description = Some ''a book'',
             ItemResponse_id = 1, ItemResponse_owner_id = 1\<rparr>]"
proof -
  let ?item = "\<lparr>ItemCreateRequest_title = ''book'',
                ItemCreateRequest_description = Some ''a book''\<rparr>"
  let ?db = "\<lparr>users = [\<lparr>User_id = 1, User_email = ''a@example.com'',
                 User_hashed_password = ''pwnotreallyhashed'', User_is_active = True\<rparr>],
              items = []\<rparr>"
  have "\<exists>resp db1 listing.
           create_item_for_user 1 ?item ?db = (Inr resp, db1)
           \<and> fst (read_items None None db1) = Inr listing
           \<and> resp \<in> set listing
           \<and> ItemResponse_owner_id resp = 1
           \<and> ItemResponse_title resp = ItemCreateRequest_title ?item
           \<and> ItemResponse_description resp = ItemCreateRequest_description ?item"
    by (rule create_item_then_read_items [where d = "''a book''"])
      (simp_all add: query_param_def)
  then show ?thesis
    by (simp add: create_item_for_user_cases next_id_def ItemResponse_from_orm_def
        read_items_def get_db_items_def select_offset_limit_def query_param_def
        offset_limit_take_drop)
qed

text \<open>
  C5 as it is stated, for every creation followed by a listing, fails: after one
  account and 100 records titled \<open>old\<close>, the record titled \<open>new\<close> is created with
  the id 101, and the listing with the defaults (skip = 0, limit = 100) succeeds and
  contains no record with that title.
\<close>

theorem create_item_then_read_items_counterexample:
  "fst (create_item_for_user 1
          \<lparr>ItemCreateRequest_title = ''new'', ItemCreateRequest_description = Some ''d''\<rparr>
          (run (CreateUser \<lparr>UserCreateRequest_email = ''a@example.com'',
                            UserCreateRequest_password = ''pw''\<rparr>
                # replicate 100 (CreateItemForUser 1
                    \<lparr>ItemCreateRequest_title = ''old'',
                     ItemCreateRequest_description = Some ''d''\<rparr>))))
     = Inr \<lparr>ItemResponse_title = ''new'', ItemResponse_description = Some ''d'',
            ItemResponse_id = 101, ItemResponse_owner_id = 1\<rparr>
  \<and> \<not> isl (fst (read_items None None
        (snd (create_item_for_user 1
          \<lparr>ItemCreateRequest_title = ''new'', ItemCreateRequest_description = Some ''d''\<rparr>
          (run (CreateUser \<lparr>UserCreateRequest_email = ''a@example.com'',
                            UserCreateRequest_password = ''pw''\<rparr>
                # replicate 100 (CreateItemForUser 1
                    \<lparr>ItemCreateRequest_title = ''old'',
                     ItemCreateRequest_description = Some ''d''\<rparr>)))))))
  \<and> ''new'' \<notin> set (map ItemResponse_title (projr (fst (read_items None None
        (snd (create_item_for_user 1
          \<lparr>ItemCreateRequest_title = ''new'', ItemCreateRequest_description = Some ''d''\<rparr>
          (run (CreateUser \<lparr>UserCreateRequest_email = ''a@example.com'',
                            UserCreateRequest_password = ''pw''\<rparr>
                # replicate 100 (CreateItemForUser 1
                    \<lparr>ItemCreateRequest_title = ''old'',
                     ItemCreateRequest_description = Some ''d''\<rparr>)))))))))"
  by code_simp

subsection \<open>Listing and lookup\<close>

text \<open>
  C6. For non-negative skip and limit, \<open>get_db_users\<close> returns the stored accounts in
  storage order without the first skip of them, cut after limit of them, and
  \<open>read_users\<close> answers with their projections; with 150 stored accounts, skip = 100
  and limit = 100 give the last 50; and a request to \<open>read_users\<close> without the two
  parameters is the request with skip = 0 and limit = 100.
\<close>

theorem get_db_users_offset_limit:
  assumes "0 \<le> skip" and "0 \<le> limit"
  shows "get_db_users db skip limit
           = (Inr (take (nat limit) (drop (nat skip) (users db))), db)
         \<and> fst (read_users (Some skip) (Some limit) db)
           = Inr (map (UserResponse_from_orm db)
                    (take (nat limit) (drop (nat skip) (users db))))
         \<and> (length (users db) = 150 \<longrightarrow>
              fst (get_db_users db 100 100) = Inr (drop 100 (users db))
              \<and> length (drop 100 (users db)) = 50)
         \<and> read_users None None db = read_users (Some 0) (Some 100) db"
  using assms
  by (simp add: get_db_users_def read_users_def select_offset_limit_def
      offset_limit_take_drop query_param_def)

text \<open>An instance with 150 stored accounts, numbered 1 to 150.\<close>

theorem get_db_users_offset_limit_witness:
  "length (users \<lparr>users = map (\<lambda>n. \<lparr>User_id = int n, User_email = replicate n CHR ''a'',
                      User_hashed_password = ''pwnotreallyhashed'',
                      User_is_active = True\<rparr>) [1..<151], items = []\<rparr>) = 150
   \<and> fst (get_db_users \<lparr>users = map (\<lambda>n. \<lparr>User_id = int n, User_email = replicate n CHR ''a'',
                      User_hashed_password = ''pwnotreallyhashed'',
                      User_is_active = True\<rparr>) [1..<151], items = []\<rparr> 100 100)
     = Inr (map (\<lambda>n. \<lparr>User_id = int n, User_email = replicate n CHR ''a'',
                      User_hashed_password = ''pwnotreallyhashed'',
                      User_is_active = True\<rparr>) [101..<151])
   \<and> length (map (\<lambda>n. \<lparr>User_id = int n, User_email = replicate n CHR ''a'',
                      User_hashed_password = ''pwnotreallyhashed'',
                      User_is_active = True\<rparr>) [101..<151]) = 50"
proof -
  let ?db = "\<lparr>users = map (\<lambda>n. \<lparr>User_id = int n, User_email = replicate n CHR ''a'',
                      User_hashed_password = ''pwnotreallyhashed'',
                      User_is_active = True\<rparr>) [1..<151], items = []\<rparr>"
  have "(0::int) \<le> 100" by simp
  from get_db_users_offset_limit [OF this this, of ?db]
  show ?thesis by (simp add: drop_map)
qed

text \<open>
  C7. \<open>read_user\<close> fails with the 404 error "User not found" exactly when no stored
  account has the id. When one has, the answer is the projection of a stored account
  with that id and the state is unchanged; ids being pairwise different, as they are
  after any sequence of requests, it is the projection of that account.
\<close>

theorem read_user_not_found:
  "(fst (read_user user_id db) = Inl (HTTPException 404 ''User not found''))
     = (\<forall>u \<in> set (users db). User_id u \<noteq> user_id)
   \<and> (\<forall>u \<in> set (users db). User_id u = user_id \<longrightarrow>
        (\<exists>v \<in> set (users db). User_id v = user_id
            \<and> read_user user_id db = (Inr (UserResponse_from_orm db v), db)))
   \<and> (\<forall>u \<in> set (users db). User_id u = user_id \<and> distinct (map User_id (users db)) \<longrightarrow>
        read_user user_id db = (Inr (UserResponse_from_orm db u), db))"
proof (cases "first_row (filter (\<lambda>u. User_id u = user_id) (users db))")
  case None
  then have "\<forall>u \<in> set (users db). User_id u \<noteq> user_id"
    by (simp add: first_row_filter_None)
  with None show ?thesis
    by (simp add: read_user_def get_db_user_def)
next
  case (Some v)
  then have v: "v \<in> set (users db) \<and> User_id v = user_id"
    by (rule first_row_filter_Some)
  have res: "read_user user_id db = (Inr (UserResponse_from_orm db v), db)"
    using Some by (simp add: read_user_def get_db_user_def)
  have same: "u = v"
    if "u \<in> set (users db)" "User_id u = user_id" "distinct (map User_id (users db))" for u
    using that v by (metis distinct_map inj_on_def)
  show ?thesis
    using v res same by auto
qed

text \<open>An instance with two stored accounts: the id 2 is found, the id 3 is not.\<close>

theorem read_user_not_found_witness:
  "fst (read_user 2
      \<lparr>users = [\<lparr>User_id = 1, User_email = ''a@example.com'',
                 User_hashed_password = ''pwnotreallyhashed'', User_is_active = True\<rparr>,
                \<lparr>User_id = 2, User_email = ''b@example.com'',
                 User_hashed_password = ''secretnotreallyhashed'', User_is_active = True\<rparr>],
       items = [\<lparr>Item_id = 1, Item_title = ''book'', Item_description = ''a book'',
                 Item_owner_id = 2\<rparr>]\<rparr>)
     = Inr \<lparr>UserResponse_email = ''b@example.com'', UserResponse_id = 2,
            UserResponse_is_active = True,
            UserResponse_items =
              [\<lparr>ItemResponse_title = ''book'', ItemResponse_description = Some ''a book'',
                ItemResponse_id = 1, ItemResponse_owner_id = 2\<rparr>]\<rparr>
   \<and> fst (read_user 3
      \<lparr>users = [\<lparr>User_id = 1, User_email = ''a@example.com'',
                 User_hashed_password = ''pwnotreallyhashed'', User_is_active = True\<rparr>,
                \<lparr>User_id = 2, User_email = ''b@example.com'',
                 User_hashed_password = ''secretnotreallyhashed'', User_is_active = True\<rparr>],
       items = [\<lparr>Item_id = 1, Item_title = ''book'', Item_description = ''a book'',
                 Item_owner_id = 2\<rparr>]\<rparr>)
     = Inl (HTTPException 404 ''User not found'')"
proof -
  let ?db = "\<lparr>users = [\<lparr>User_id = 1, User_email = ''a@example.com'',
                 User_hashed_password = ''pwnotreallyhashed'', User_is_active = True\<rparr>,
                \<lparr>User_id = 2, User_email = ''b@example.com'',
                 User_hashed_password = ''secretnotreallyhashed'', User_is_active = True\<rparr>],
       items = [\<lparr>Item_id = 1, Item_title = ''book'', Item_description = ''a book'',
                 Item_owner_id = 2\<rparr>]\<rparr>"
  show ?thesis
    using read_user_not_found [of 2 ?db] read_user_not_found [of 3 ?db]
    by (simp add: UserResponse_from_orm_def User_items_def ItemResponse_from_orm_def)
qed

text \<open>
  C8. The projection of a stored account keeps its id, its email and its is_active
  flag, and the ids of the records in the response are the ids of the account's records
  (as sets); the one attribute it drops is the secret, on which it does not depend.
\<close>

theorem UserResponse_from_orm_preserves:
  "UserResponse_id (UserResponse_from_orm db u) = User_id u
   \<and> UserResponse_email (UserResponse_from_orm db u) = User_email u
   \<and> UserResponse_is_active (UserResponse_from_orm db u) = User_is_active u
   \<and> set (map ItemResponse_id (UserResponse_items (UserResponse_from_orm db u)))
       = set (map Item_id (User_items db u))
   \<and> UserResponse_from_orm db (u\<lparr>User_hashed_password := secret\<rparr>)
       = UserResponse_from_orm db u"
  by (simp add: UserResponse_from_orm_def ItemResponse_from_orm_def User_items_def
      image_image)

subsection \<open>Reads leave the state as it is\<close>

text \<open>
  C10. Each of the four read operations (lookup by id, lookup by email, list accounts,
  list records) returns the state it was given, for every state and every argument.
\<close>

theorem reads_leave_state_unchanged:
  "snd (get_db_user db user_id) = db
   \<and> snd (get_db_user_by_email db email) = db
   \<and> snd (get_db_users db skip limit) = db
   \<and> snd (get_db_items db skip limit) = db"
  by (simp add: get_db_user_def get_db_user_by_email_def get_db_users_def get_db_items_def)

end
